theory Spec2Isabelle
  imports Main
begin

unbundle bit_operations_syntax

section \<open>Flask-SeaSurf: the CSRF extension of \<^verbatim>\<open>flaskext/seasurf.py\<close>\<close>

text \<open>
  The module holds two pure helpers (\<^verbatim>\<open>_same_origin\<close>, \<^verbatim>\<open>_constant_time_compare\<close>)
  and the class \<^verbatim>\<open>SeaSurf\<close> with its two request hooks, the exemption decorator and
  the token accessor. Python values are modelled at the types the module uses them at:
  byte strings as \<open>string\<close>, unbounded integers as \<open>int\<close> or \<open>nat\<close>, dictionaries as
  maps, and every exception the module can raise as a value.
\<close>

subsection \<open>Module constants\<close>

definition MAX_CSRF_KEY :: nat where
  "MAX_CSRF_KEY = 18446744073709551616"

definition REASON_NO_REFERER :: string where
  "REASON_NO_REFERER = ''Referer checking failed: no referer.''"

text \<open>\<^verbatim>\<open>REASON_BAD_REFERER.format(a, b)\<close>: the template with its two fields filled.\<close>

definition REASON_BAD_REFERER :: "string \<Rightarrow> string \<Rightarrow> string" where
  "REASON_BAD_REFERER a b = ''Referer checking failed: '' @ a @ '' does not match '' @ b @ ''.''"

definition REASON_NO_CSRF_TOKEN :: string where
  "REASON_NO_CSRF_TOKEN = ''CSRF token not set.''"

definition REASON_BAD_TOKEN :: string where
  "REASON_BAD_TOKEN = ''CSRF token missing or incorrect.''"

text \<open>\<^verbatim>\<open>'Forbidden ({}): {}'.format(reason, path)\<close>, the text of a logged warning.\<close>

definition forbidden_message :: "string \<Rightarrow> string \<Rightarrow> string" where
  "forbidden_message reason p = ''Forbidden ('' @ reason @ ''): '' @ p"

subsection \<open>Python values and dictionaries\<close>

text \<open>
  The values that reach \<^verbatim>\<open>_exempt_views\<close> and \<^verbatim>\<open>request.endpoint\<close>: the decorator
  \<^verbatim>\<open>exempt\<close> receives a view function, an endpoint is a string or \<^verbatim>\<open>None\<close>. A function
  object is identified by the label it carries; Python compares function objects by
  identity, and a string never equals a function.
\<close>

datatype pyval = PyNone | PyStr string | PyFunc string

text \<open>\<^verbatim>\<open>x in xs\<close> on a list: some element equals \<open>x\<close>.\<close>

fun py_in :: "pyval \<Rightarrow> pyval list \<Rightarrow> bool" where
  "py_in x [] = False"
| "py_in x (y # ys) = (if x = y then True else py_in x ys)"

text \<open>\<^verbatim>\<open>d.get(key, default)\<close>.\<close>

definition dict_get :: "(string \<rightharpoonup> string) \<Rightarrow> string \<Rightarrow> string \<Rightarrow> string" where
  "dict_get d k dflt = (case d k of None \<Rightarrow> dflt | Some v \<Rightarrow> v)"

datatype pyerror = KeyError | AttributeError

subsection \<open>\<^verbatim>\<open>_same_origin\<close>\<close>

text \<open>
  \<^verbatim>\<open>urlparse.urlparse\<close> belongs to the standard library; the three attributes that
  \<^verbatim>\<open>_same_origin\<close> reads of its result are a record, and the parser itself is a
  parameter of the model.
\<close>

record parsed_url =
  scheme :: string
  hostname :: "string option"
  port :: "nat option"

definition same_origin :: "(string \<Rightarrow> parsed_url) \<Rightarrow> string \<Rightarrow> string \<Rightarrow> bool" where
  "same_origin urlparse url1 url2 =
     (let p1 = urlparse url1; p2 = urlparse url2
      in (scheme p1, hostname p1, port p1) = (scheme p2, hostname p2, port p2))"

subsection \<open>\<^verbatim>\<open>_constant_time_compare\<close>\<close>

definition ord :: "char \<Rightarrow> int" where
  "ord c = of_char c"

text \<open>The loop \<^verbatim>\<open>for x, y in zip(val1, val2): result |= ord(x) ^ ord(y)\<close>.\<close>

fun compare_loop :: "int \<Rightarrow> (char \<times> char) list \<Rightarrow> int" where
  "compare_loop result [] = result"
| "compare_loop result ((x, y) # rest) = compare_loop (result OR (ord x XOR ord y)) rest"

definition constant_time_compare :: "string \<Rightarrow> string \<Rightarrow> bool" where
  "constant_time_compare val1 val2 =
     (if length val1 \<noteq> length val2 then False
      else compare_loop 0 (zip val1 val2) = 0)"

subsection \<open>The collaborators: application, request, session, response\<close>

text \<open>The configuration keys that \<^verbatim>\<open>init_app\<close> reads; \<open>None\<close> is a key that is not set.\<close>

record flask_app =
  SECRET_KEY :: "string option"
  CSRF_DISABLE :: "bool option"
  TESTING :: "bool option"
  CSRF_COOKIE_TIMEOUT :: "nat option"

text \<open>
  The attributes of \<^verbatim>\<open>request\<close> that the module reads. \<^verbatim>\<open>headers\<close>, \<^verbatim>\<open>cookies\<close> and
  \<^verbatim>\<open>form\<close> are lookups from a key to a value, asked with the keys the module passes.
\<close>

record request =
  request_method :: string
  endpoint :: "string option"
  is_secure :: bool
  headers :: "string \<rightharpoonup> string"
  url_root :: string
  path :: string
  cookies :: "string \<rightharpoonup> string"
  form :: "string \<rightharpoonup> string"

text \<open>
  The session is a dictionary object: \<^verbatim>\<open>session[k]\<close>, \<^verbatim>\<open>session[k] = v\<close> and
  \<^verbatim>\<open>k in session\<close> work on its items, while \<^verbatim>\<open>hasattr(session, k)\<close> asks for an
  attribute of the object. The two name spaces are separate fields.
\<close>

record flask_session =
  session_items :: "string \<rightharpoonup> string"
  session_attrs :: "string list"

definition hasattr :: "flask_session \<Rightarrow> string \<Rightarrow> bool" where
  "hasattr s name = (name \<in> set (session_attrs s))"

definition session_contains :: "flask_session \<Rightarrow> string \<Rightarrow> bool" where
  "session_contains s k = (session_items s k \<noteq> None)"

definition session_getitem :: "flask_session \<Rightarrow> string \<Rightarrow> pyerror + string" where
  "session_getitem s k = (case session_items s k of None \<Rightarrow> Inl KeyError | Some v \<Rightarrow> Inr v)"

definition session_setitem :: "flask_session \<Rightarrow> string \<Rightarrow> string \<Rightarrow> flask_session" where
  "session_setitem s k v = s\<lparr>session_items := (session_items s)(k \<mapsto> v)\<rparr>"

text \<open>
  A response: the cookies set on it, as (name, value, max-age in seconds), and its
  \<^verbatim>\<open>Vary\<close> header set.
\<close>

record response =
  set_cookies :: "(string \<times> string \<times> nat) list"
  vary :: "string set"

text \<open>
  The mutable state around a request: the session, the warnings the application's logger
  has received, and the system random source as the sequence of its future draws together
  with the number of draws made.
\<close>

record world =
  session :: flask_session
  logged :: "string list"
  entropy :: "nat \<Rightarrow> nat"
  drawn :: nat

subsection \<open>The class \<^verbatim>\<open>SeaSurf\<close>\<close>

text \<open>
  The attributes of an instance. \<open>app\<close> is \<open>None\<close> while the attribute \<^verbatim>\<open>self.app\<close> has
  not been assigned. The timeout is in seconds.
\<close>

record seasurf =
  exempt_views :: "pyval list"
  secret_key :: string
  csrf_disable :: bool
  csrf_timeout :: nat
  app :: "flask_app option"

text \<open>
  \<^verbatim>\<open>init_app\<close> assigns \<^verbatim>\<open>_secret_key\<close>, \<^verbatim>\<open>_csrf_disable\<close> and \<^verbatim>\<open>_csrf_timeout\<close> from the
  configuration and registers the hooks. It assigns nothing else.
\<close>

definition init_app :: "seasurf \<Rightarrow> flask_app \<Rightarrow> seasurf" where
  "init_app self a =
     self\<lparr>secret_key := (case SECRET_KEY a of None \<Rightarrow> [] | Some k \<Rightarrow> k),
          csrf_disable := (case CSRF_DISABLE a of
                             Some b \<Rightarrow> b
                           | None \<Rightarrow> (case TESTING a of None \<Rightarrow> False | Some b \<Rightarrow> b)),
          csrf_timeout := (case CSRF_COOKIE_TIMEOUT a of None \<Rightarrow> 5 * 86400 | Some t \<Rightarrow> t)\<rparr>"

text \<open>
  \<^verbatim>\<open>SeaSurf(app)\<close>: a new object, whose \<^verbatim>\<open>_exempt_views\<close> is the list of the class, passed
  to \<^verbatim>\<open>init_app\<close>. The three attributes that \<^verbatim>\<open>init_app\<close> assigns have no value before.
\<close>

definition SeaSurf :: "pyval list \<Rightarrow> flask_app \<Rightarrow> seasurf" where
  "SeaSurf views a =
     init_app \<lparr>exempt_views = views, secret_key = [], csrf_disable = False,
               csrf_timeout = 0, app = None\<rparr> a"

definition exempt :: "seasurf \<Rightarrow> pyval \<Rightarrow> seasurf \<times> pyval" where
  "exempt self view = (self\<lparr>exempt_views := exempt_views self @ [view]\<rparr>, view)"

subsection \<open>\<^verbatim>\<open>_before_request\<close>\<close>

text \<open>
  What the hook does: it returns \<^verbatim>\<open>None\<close> and the request goes on to its view, or
  \<^verbatim>\<open>abort\<close> ends the request with a status, or an exception leaves the hook.
\<close>

datatype outcome = Return_None | Abort nat | Raise pyerror

definition safe_methods :: "string list" where
  "safe_methods = [''GET'', ''HEAD'', ''OPTIONS'', ''TRACE'']"

definition endpoint_value :: "request \<Rightarrow> pyval" where
  "endpoint_value r = (case endpoint r of None \<Rightarrow> PyNone | Some e \<Rightarrow> PyStr e)"

text \<open>
  \<^verbatim>\<open>self.app.logger.warning(...)\<close> followed by \<^verbatim>\<open>return abort(403)\<close>. Reading
  \<^verbatim>\<open>self.app\<close> comes first: without the attribute, nothing is logged and \<^verbatim>\<open>abort\<close> is
  not reached.
\<close>

definition warn_and_abort :: "seasurf \<Rightarrow> string \<Rightarrow> world \<Rightarrow> outcome \<times> world" where
  "warn_and_abort self msg w =
     (case app self of
        None \<Rightarrow> (Raise AttributeError, w)
      | Some a \<Rightarrow> (Abort 403, w\<lparr>logged := logged w @ [msg]\<rparr>))"

text \<open>The token of the cookie, \<^verbatim>\<open>request.cookies.get('_csrf_token', '')\<close>.\<close>

definition cookie_csrf_token :: "request \<Rightarrow> string" where
  "cookie_csrf_token r = dict_get (cookies r) ''_csrf_token'' ''''"

text \<open>The token the client supplies: the form field of a POST, else the header.\<close>

definition request_csrf_token :: "request \<Rightarrow> string" where
  "request_csrf_token r =
     (let t = (if request_method r = ''POST'' then dict_get (form r) ''_csrf_token'' '''' else '''')
      in if t = '''' then dict_get (headers r) ''HTTP_X_CSRFTOKEN'' '''' else t)"

definition check_token :: "seasurf \<Rightarrow> request \<Rightarrow> world \<Rightarrow> outcome \<times> world" where
  "check_token self r w =
     (let csrf_token = cookie_csrf_token r
      in if \<not> constant_time_compare (request_csrf_token r) csrf_token
         then warn_and_abort self (forbidden_message REASON_BAD_TOKEN (path r)) w
         else (Return_None, w))"

definition before_request ::
    "(string \<Rightarrow> parsed_url) \<Rightarrow> seasurf \<Rightarrow> request \<Rightarrow> world \<Rightarrow> outcome \<times> world" where
  "before_request urlparse self r w =
     (if csrf_disable self then (Return_None, w)
      else if request_method r \<notin> set safe_methods then
        (if py_in (endpoint_value r) (exempt_views self) then (Return_None, w)
         else if is_secure r then
           (case headers r ''HTTP_REFERER'' of
              None \<Rightarrow> warn_and_abort self (forbidden_message REASON_NO_REFERER (path r)) w
            | Some referer \<Rightarrow>
                (let allowed_referer = url_root r
                 in if \<not> same_origin urlparse referer allowed_referer
                    then warn_and_abort self
                           (forbidden_message (REASON_BAD_REFERER referer allowed_referer) (path r)) w
                    else check_token self r w))
         else check_token self r w)
      else (Return_None, w))"

subsection \<open>\<^verbatim>\<open>_after_request\<close>\<close>

definition after_request :: "seasurf \<Rightarrow> response \<Rightarrow> world \<Rightarrow> pyerror + response" where
  "after_request self resp w =
     (if \<not> hasattr (session w) ''_csrf_token'' then Inr resp
      else (case session_getitem (session w) ''_csrf_token'' of
              Inl e \<Rightarrow> Inl e
            | Inr t \<Rightarrow>
                Inr (resp\<lparr>set_cookies := set_cookies resp @ [(''_csrf_token'', t, csrf_timeout self)],
                          vary := insert ''Cookie'' (vary resp)\<rparr>)))"

subsection \<open>\<^verbatim>\<open>_generate_token\<close> and \<^verbatim>\<open>_set_token\<close>\<close>

text \<open>\<^verbatim>\<open>'{}'.format(n)\<close> for a non-negative integer: its decimal digits.\<close>

definition digit_char :: "nat \<Rightarrow> char" where
  "digit_char d = ''0123456789'' ! d"

function decimal :: "nat \<Rightarrow> string" where
  "decimal n = (if n < 10 then [digit_char n] else decimal (n div 10) @ [digit_char (n mod 10)])"
  by pat_completeness auto
termination
  by (relation "measure id") auto

declare decimal.simps [simp del]

text \<open>\<^verbatim>\<open>randrange(start, stop)\<close> on the system random source: one draw, reduced to the range.\<close>

definition randrange :: "nat \<Rightarrow> nat \<Rightarrow> world \<Rightarrow> nat \<times> world" where
  "randrange start stop w =
     (start + entropy w (drawn w) mod (stop - start), w\<lparr>drawn := Suc (drawn w)\<rparr>)"

text \<open>
  \<^verbatim>\<open>hashlib.sha1(...).hexdigest()\<close> is a parameter: the model fixes what is hashed, not the
  hash function.
\<close>

definition generate_token :: "(string \<Rightarrow> string) \<Rightarrow> seasurf \<Rightarrow> world \<Rightarrow> string \<times> world" where
  "generate_token sha1_hexdigest self w =
     (case randrange 0 MAX_CSRF_KEY w of
        (n, w') \<Rightarrow> (sha1_hexdigest (decimal n @ secret_key self), w'))"

definition set_token ::
    "(string \<Rightarrow> string) \<Rightarrow> seasurf \<Rightarrow> world \<Rightarrow> (pyerror + string) \<times> world" where
  "set_token sha1_hexdigest self w =
     (case generate_token sha1_hexdigest self w of
        (csrf_token, w1) \<Rightarrow>
          (let w2 = (if \<not> session_contains (session w1) ''_csrf_token''
                     then w1\<lparr>session := session_setitem (session w1) ''_csrf_token'' csrf_token\<rparr>
                     else w1)
           in (session_getitem (session w2) ''_csrf_token'', w2)))"

subsection \<open>Concrete applications, requests and sessions\<close>

text \<open>
  An application with a secret key and no other setting, and the extension as
  \<^verbatim>\<open>SeaSurf(app)\<close> builds it. The second instance is the same object after the caller
  has assigned \<^verbatim>\<open>csrf.app = app\<close> by hand.
\<close>

definition example_app :: flask_app where
  "example_app = \<lparr>SECRET_KEY = Some ''s3cr3t'', CSRF_DISABLE = None, TESTING = None,
                   CSRF_COOKIE_TIMEOUT = None\<rparr>"

definition example_seasurf :: seasurf where
  "example_seasurf = SeaSurf [] example_app"

definition seasurf_with_app :: seasurf where
  "seasurf_with_app = example_seasurf\<lparr>app := Some example_app\<rparr>"

text \<open>The view function \<^verbatim>\<open>some_view\<close>, decorated with \<^verbatim>\<open>@csrf.exempt\<close>.\<close>

definition seasurf_exempting :: seasurf where
  "seasurf_exempting = fst (exempt example_seasurf (PyFunc ''some_view''))"

text \<open>A parser that knows three URLs, two of them of the same origin.\<close>

definition example_urlparse :: "string \<Rightarrow> parsed_url" where
  "example_urlparse u =
     (if u = ''https://example.com/'' \<or> u = ''https://example.com/form''
      then \<lparr>scheme = ''https'', hostname = Some ''example.com'', port = None\<rparr>
      else if u = ''https://evil.example/''
      then \<lparr>scheme = ''https'', hostname = Some ''evil.example'', port = None\<rparr>
      else \<lparr>scheme = [], hostname = None, port = None\<rparr>)"

definition no_entries :: "string \<rightharpoonup> string" where
  "no_entries = Map.empty"

definition token_abc123 :: "string \<rightharpoonup> string" where
  "token_abc123 = [''_csrf_token'' \<mapsto> ''abc123'']"

definition token_abc124 :: "string \<rightharpoonup> string" where
  "token_abc124 = [''_csrf_token'' \<mapsto> ''abc124'']"

text \<open>The header that the class documents for clients without a form, as a client sends it.\<close>

definition header_x_csrftoken :: "string \<rightharpoonup> string" where
  "header_x_csrftoken = [''X-CSRFToken'' \<mapsto> ''abc123'']"

definition referer_own :: "string \<rightharpoonup> string" where
  "referer_own = [''HTTP_REFERER'' \<mapsto> ''https://example.com/form'']"

definition referer_evil :: "string \<rightharpoonup> string" where
  "referer_evil = [''HTTP_REFERER'' \<mapsto> ''https://evil.example/'']"

text \<open>A POST to the endpoint \<^verbatim>\<open>some_view\<close> over plain HTTP that carries nothing.\<close>

definition bare_post :: request where
  "bare_post = \<lparr>request_method = ''POST'', endpoint = Some ''some_view'', is_secure = False,
                 headers = no_entries, url_root = ''http://example.com/'', path = ''/some_view'',
                 cookies = no_entries, form = no_entries\<rparr>"

text \<open>The same POST over HTTPS.\<close>

definition secure_post :: request where
  "secure_post = bare_post\<lparr>is_secure := True, url_root := ''https://example.com/''\<rparr>"

definition example_entropy :: "nat \<Rightarrow> nat" where
  "example_entropy n = 42 + n"

text \<open>A fresh session, and a session to which the token \<^verbatim>\<open>abc123\<close> is bound.\<close>

definition fresh_world :: world where
  "fresh_world = \<lparr>session = \<lparr>session_items = no_entries, session_attrs = []\<rparr>,
                   logged = [], entropy = example_entropy, drawn = 0\<rparr>"

definition bound_world :: world where
  "bound_world = \<lparr>session = \<lparr>session_items = token_abc123, session_attrs = []\<rparr>,
                   logged = [], entropy = example_entropy, drawn = 0\<rparr>"

definition empty_response :: response where
  "empty_response = \<lparr>set_cookies = [], vary = {}\<rparr>"

text \<open>A stand-in for the digest in concrete runs: it tags its input.\<close>

definition tagging_digest :: "string \<Rightarrow> string" where
  "tagging_digest s = ''digest:'' @ s"

section \<open>Properties\<close>

subsection \<open>Unfolding rules\<close>

lemmas example_defs = example_app_def example_seasurf_def seasurf_with_app_def
  seasurf_exempting_def example_urlparse_def no_entries_def token_abc123_def token_abc124_def
  header_x_csrftoken_def referer_own_def referer_evil_def bare_post_def secure_post_def
  example_entropy_def fresh_world_def bound_world_def empty_response_def tagging_digest_def
  SeaSurf_def init_app_def exempt_def

lemmas hook_defs = before_request_def check_token_def warn_and_abort_def cookie_csrf_token_def
  request_csrf_token_def dict_get_def safe_methods_def endpoint_value_def same_origin_def
  forbidden_message_def REASON_NO_REFERER_def REASON_BAD_REFERER_def REASON_BAD_TOKEN_def

subsection \<open>The comparison decides equality\<close>

lemma ord_xor_zero: "ord x XOR ord y = 0 \<longleftrightarrow> x = y"
proof -
  have "ord x XOR ord y = 0 \<longleftrightarrow> ord x = ord y"
    by (metis bit.xor_left_self xor.right_neutral xor_self_eq)
  then show ?thesis by (simp add: ord_def)
qed

lemma compare_loop_zero:
  "compare_loop result ps = 0 \<longleftrightarrow> result = 0 \<and> (\<forall>p \<in> set ps. fst p = snd p)"
proof (induction ps arbitrary: result)
  case Nil
  then show ?case by simp
next
  case (Cons p ps)
  obtain x y where p: "p = (x, y)" by (cases p)
  show ?case
    using Cons.IH [of "result OR (ord x XOR ord y)"]
    by (auto simp: p or_eq_0_iff ord_xor_zero)
qed

lemma constant_time_compare_eq: "constant_time_compare a b \<longleftrightarrow> a = b"
proof (cases "length a = length b")
  case True
  then have "(\<forall>p \<in> set (zip a b). fst p = snd p) \<longleftrightarrow> a = b"
    by (induction a b rule: list_induct2) auto
  with True show ?thesis
    by (simp add: constant_time_compare_def compare_loop_zero)
next
  case False
  then show ?thesis by (auto simp: constant_time_compare_def)
qed

text \<open>
  C7. For two sequences of equal length the comparison returns true exactly when they are
  equal, and for two sequences of unequal length it returns false.
\<close>

theorem constant_time_compare_correct:
  "(length A = length B \<longrightarrow> (constant_time_compare A B \<longleftrightarrow> A = B)) \<and>
   (length A \<noteq> length B \<longrightarrow> \<not> constant_time_compare A B)"
  by (auto simp: constant_time_compare_eq)

theorem constant_time_compare_correct_witness:
  "length ''abc123'' = length ''abc123'' \<and> constant_time_compare ''abc123'' ''abc123'' \<and>
   length ''abc123'' = length ''abc124'' \<and> \<not> constant_time_compare ''abc123'' ''abc124'' \<and>
   length ''abc'' \<noteq> length ''abc123'' \<and> \<not> constant_time_compare ''abc'' ''abc123''"
  using constant_time_compare_correct [of "''abc123''" "''abc123''"]
    constant_time_compare_correct [of "''abc123''" "''abc124''"]
    constant_time_compare_correct [of "''abc''" "''abc123''"]
  by simp

subsection \<open>Safe methods\<close>

text \<open>
  C9. A request whose method is GET, HEAD, OPTIONS or TRACE passes the hook, whatever its
  tokens, its endpoint, its transport and its headers are, and nothing is logged.
\<close>

theorem safe_method_allowed:
  "request_method r \<in> {''GET'', ''HEAD'', ''OPTIONS'', ''TRACE''} \<Longrightarrow>
   before_request urlparse self r w = (Return_None, w)"
  by (auto simp: before_request_def safe_methods_def)

theorem safe_method_allowed_witness:
  "before_request example_urlparse example_seasurf
     (secure_post\<lparr>request_method := ''GET'', cookies := token_abc123, form := token_abc124\<rparr>) bound_world
   = (Return_None, bound_world)"
  using safe_method_allowed [of "secure_post\<lparr>request_method := ''GET'', cookies := token_abc123, form := token_abc124\<rparr>"
     example_urlparse example_seasurf bound_world]
  by simp

subsection \<open>The token check and the session\<close>

lemma before_request_reaches_check_token:
  assumes "\<not> csrf_disable self" and "request_method r \<notin> set safe_methods"
    and "\<not> py_in (endpoint_value r) (exempt_views self)"
    and "is_secure r \<longrightarrow>
           (\<exists>referer. headers r ''HTTP_REFERER'' = Some referer \<and>
              same_origin urlparse referer (url_root r))"
  shows "before_request urlparse self r w = check_token self r w"
  using assms by (auto simp: before_request_def)

lemma check_token_session: "session (snd (check_token self r w)) = session w"
  by (simp add: check_token_def warn_and_abort_def split: option.split)

lemma warn_and_abort_session: "session (snd (warn_and_abort self msg w)) = session w"
  by (simp add: warn_and_abort_def split: option.split)

lemma before_request_session: "session (snd (before_request urlparse self r w)) = session w"
  by (simp add: before_request_def check_token_session warn_and_abort_session Let_def
      split: option.split)

lemma generate_token_session: "session (snd (generate_token h self w)) = session w"
  by (simp add: generate_token_def randrange_def)

text \<open>
  C10. The hook before a request leaves the session as it found it, on every path, allowed
  or not, and so does the generation of a token; the session receives its token from the
  accessor \<^verbatim>\<open>_set_token\<close>, after which the session holds one.
\<close>

theorem before_request_never_writes_session:
  "session (snd (before_request urlparse self r w)) = session w \<and>
   session_items (session (snd (before_request urlparse self r w))) ''_csrf_token''
     = session_items (session w) ''_csrf_token'' \<and>
   session (snd (generate_token h self w)) = session w \<and>
   session_contains (session (snd (set_token h self w))) ''_csrf_token''"
  by (simp add: before_request_session generate_token_session)
     (simp add: set_token_def session_contains_def session_setitem_def Let_def
        split: prod.split)

theorem before_request_never_writes_session_witness:
  "fst (before_request example_urlparse seasurf_with_app
          (bare_post\<lparr>cookies := token_abc123\<rparr>) bound_world) = Abort 403 \<and>
   logged (snd (before_request example_urlparse seasurf_with_app
          (bare_post\<lparr>cookies := token_abc123\<rparr>) bound_world))
     = [''Forbidden (CSRF token missing or incorrect.): /some_view''] \<and>
   session (snd (before_request example_urlparse seasurf_with_app
          (bare_post\<lparr>cookies := token_abc123\<rparr>) bound_world)) = session bound_world \<and>
   session_contains (session (snd (set_token tagging_digest seasurf_with_app fresh_world)))
     ''_csrf_token'' \<and>
   \<not> session_contains (session fresh_world) ''_csrf_token''"
proof -
  let ?r = "bare_post\<lparr>cookies := token_abc123\<rparr>"
  note frame = before_request_never_writes_session [of example_urlparse seasurf_with_app ?r
      bound_world tagging_digest]
  note bind = before_request_never_writes_session [of example_urlparse seasurf_with_app ?r
      fresh_world tagging_digest]
  have denied: "before_request example_urlparse seasurf_with_app ?r bound_world =
      (Abort 403, bound_world\<lparr>logged :=
         [''Forbidden (CSRF token missing or incorrect.): /some_view'']\<rparr>)"
    by (simp add: example_defs hook_defs constant_time_compare_eq)
  have fresh: "\<not> session_contains (session fresh_world) ''_csrf_token''"
    by (simp add: example_defs session_contains_def)
  from frame bind denied fresh show ?thesis by simp
qed

text \<open>
  C8. The accessor called twice in a row returns the same token both times. A token the
  session holds is returned and the session stays as it is; otherwise the generated token
  is bound to the session and returned.
\<close>

theorem set_token_idempotent:
  "fst (set_token h self (snd (set_token h self w))) = fst (set_token h self w) \<and>
   fst (set_token h self w) =
     Inr (case session_items (session w) ''_csrf_token'' of
            Some t \<Rightarrow> t
          | None \<Rightarrow> fst (generate_token h self w)) \<and>
   session (snd (set_token h self w)) =
     (case session_items (session w) ''_csrf_token'' of
        Some t \<Rightarrow> session w
      | None \<Rightarrow> session_setitem (session w) ''_csrf_token'' (fst (generate_token h self w)))"
  by (auto simp: set_token_def generate_token_def randrange_def session_contains_def
      session_setitem_def session_getitem_def Let_def split: prod.split option.split)

lemma decimal_42: "decimal 42 = ''42''"
  by (simp add: decimal.simps [of 42] decimal.simps [of 4] digit_char_def)

theorem set_token_idempotent_witness:
  "fst (set_token tagging_digest example_seasurf fresh_world) = Inr ''digest:42s3cr3t'' \<and>
   fst (set_token tagging_digest example_seasurf
          (snd (set_token tagging_digest example_seasurf fresh_world))) = Inr ''digest:42s3cr3t'' \<and>
   fst (set_token tagging_digest example_seasurf bound_world) = Inr ''abc123'' \<and>
   session (snd (set_token tagging_digest example_seasurf bound_world)) = session bound_world"
  using set_token_idempotent [of tagging_digest example_seasurf fresh_world]
    set_token_idempotent [of tagging_digest example_seasurf bound_world]
  by (simp add: example_defs generate_token_def randrange_def MAX_CSRF_KEY_def decimal_42)

subsection \<open>Which token the request is compared with\<close>

text \<open>
  C1, as amended. For an unsafe, non-exempt request past the referer check, the canonical
  value in the comparison is the \<^verbatim>\<open>_csrf_token\<close> cookie of the request (the empty string
  without the cookie), and the session has no part in the decision. A supplied token that
  equals the cookie and is not empty lets the request pass; a supplied token that differs
  from the cookie is answered, on an instance with its \<^verbatim>\<open>app\<close> attribute, by 403 with the
  reason logged. A POST whose cookie and form field are both \<^verbatim>\<open>abc123\<close> passes; with the
  form field \<^verbatim>\<open>abc124\<close> it is answered by 403.
\<close>

theorem token_compared_with_cookie:
  assumes "\<not> csrf_disable self" and "request_method r \<notin> set safe_methods"
    and "\<not> py_in (endpoint_value r) (exempt_views self)"
    and "is_secure r \<longrightarrow>
           (\<exists>referer. headers r ''HTTP_REFERER'' = Some referer \<and>
              same_origin urlparse referer (url_root r))"
  shows "(request_csrf_token r = dict_get (cookies r) ''_csrf_token'' '''' \<and>
          request_csrf_token r \<noteq> ''''
            \<longrightarrow> before_request urlparse self r w = (Return_None, w)) \<and>
         (request_csrf_token r \<noteq> dict_get (cookies r) ''_csrf_token'' '''' \<and>
          app self = Some a
            \<longrightarrow> before_request urlparse self r w =
                  (Abort 403, w\<lparr>logged := logged w @
                     [''Forbidden (CSRF token missing or incorrect.): '' @ path r]\<rparr>)) \<and>
         fst (before_request urlparse self r (w\<lparr>session := s'\<rparr>))
           = fst (before_request urlparse self r w) \<and>
         (request_method r = ''POST'' \<and> cookies r ''_csrf_token'' = Some ''abc123'' \<and>
          form r ''_csrf_token'' = Some ''abc123''
            \<longrightarrow> before_request urlparse self r w = (Return_None, w)) \<and>
         (request_method r = ''POST'' \<and> cookies r ''_csrf_token'' = Some ''abc123'' \<and>
          form r ''_csrf_token'' = Some ''abc124'' \<and> app self = Some a
            \<longrightarrow> before_request urlparse self r w =
                  (Abort 403, w\<lparr>logged := logged w @
                     [''Forbidden (CSRF token missing or incorrect.): '' @ path r]\<rparr>))"
proof -
  let ?denied = "(Abort 403, w\<lparr>logged := logged w @
      [''Forbidden (CSRF token missing or incorrect.): '' @ path r]\<rparr>)"
  have reach: "before_request urlparse self r v = check_token self r v" for v
    using assms by (rule before_request_reaches_check_token)
  have equal: "check_token self r w = (Return_None, w)"
    if "request_csrf_token r = dict_get (cookies r) ''_csrf_token'' ''''"
    using that by (simp add: check_token_def cookie_csrf_token_def constant_time_compare_eq)
  have differ: "check_token self r w = ?denied"
    if "request_csrf_token r \<noteq> dict_get (cookies r) ''_csrf_token'' ''''"
      and "app self = Some a"
    using that
    by (simp add: check_token_def cookie_csrf_token_def constant_time_compare_eq
        warn_and_abort_def forbidden_message_def REASON_BAD_TOKEN_def)
  have frame: "fst (check_token self r (w\<lparr>session := s'\<rparr>)) = fst (check_token self r w)"
    by (simp add: check_token_def warn_and_abort_def split: option.split)
  have good: "request_csrf_token r = dict_get (cookies r) ''_csrf_token'' ''''"
    if "request_method r = ''POST''" and "cookies r ''_csrf_token'' = Some ''abc123''"
      and "form r ''_csrf_token'' = Some ''abc123''"
    using that by (simp add: request_csrf_token_def dict_get_def)
  have bad: "request_csrf_token r \<noteq> dict_get (cookies r) ''_csrf_token'' ''''"
    if "request_method r = ''POST''" and "cookies r ''_csrf_token'' = Some ''abc123''"
      and "form r ''_csrf_token'' = Some ''abc124''"
    using that by (simp add: request_csrf_token_def dict_get_def)
  from equal differ frame good bad show ?thesis
    unfolding reach by blast
qed

theorem token_compared_with_cookie_witness:
  "before_request example_urlparse seasurf_with_app
     (bare_post\<lparr>cookies := token_abc123, form := token_abc123\<rparr>) bound_world
     = (Return_None, bound_world) \<and>
   before_request example_urlparse seasurf_with_app
     (bare_post\<lparr>cookies := token_abc123, form := token_abc124\<rparr>) fresh_world
     = (Abort 403, fresh_world\<lparr>logged := logged fresh_world @
          [''Forbidden (CSRF token missing or incorrect.): '' @
             path (bare_post\<lparr>cookies := token_abc123, form := token_abc124\<rparr>)]\<rparr>) \<and>
   path (bare_post\<lparr>cookies := token_abc123, form := token_abc124\<rparr>) = ''/some_view'' \<and>
   logged fresh_world = []"
proof -
  let ?good = "bare_post\<lparr>cookies := token_abc123, form := token_abc123\<rparr>"
  let ?bad = "bare_post\<lparr>cookies := token_abc123, form := token_abc124\<rparr>"
  have enabled: "\<not> csrf_disable seasurf_with_app"
    by (simp add: example_defs)
  have unsafe: "request_method ?good \<notin> set safe_methods"
    "request_method ?bad \<notin> set safe_methods"
    by (simp_all add: example_defs safe_methods_def)
  have not_exempt: "\<not> py_in (endpoint_value ?good) (exempt_views seasurf_with_app)"
    "\<not> py_in (endpoint_value ?bad) (exempt_views seasurf_with_app)"
    by (simp_all add: example_defs)
  have plain: "is_secure ?good \<longrightarrow> (\<exists>referer. headers ?good ''HTTP_REFERER'' = Some referer \<and>
      same_origin example_urlparse referer (url_root ?good))"
    "is_secure ?bad \<longrightarrow> (\<exists>referer. headers ?bad ''HTTP_REFERER'' = Some referer \<and>
      same_origin example_urlparse referer (url_root ?bad))"
    by (simp_all add: example_defs)
  have good: "request_method ?good = ''POST'' \<and> cookies ?good ''_csrf_token'' = Some ''abc123'' \<and>
      form ?good ''_csrf_token'' = Some ''abc123''"
    by (simp add: example_defs)
  have bad: "request_method ?bad = ''POST'' \<and> cookies ?bad ''_csrf_token'' = Some ''abc123'' \<and>
      form ?bad ''_csrf_token'' = Some ''abc124'' \<and> app seasurf_with_app = Some example_app"
    by (simp add: example_defs)
  note at_good = token_compared_with_cookie [OF enabled unsafe(1) not_exempt(1) plain(1),
      where a = example_app and w = bound_world]
  note at_bad = token_compared_with_cookie [OF enabled unsafe(2) not_exempt(2) plain(2),
      where a = example_app and w = fresh_world]
  from at_good good
  have 1: "before_request example_urlparse seasurf_with_app ?good bound_world
      = (Return_None, bound_world)"
    by blast
  from at_bad bad
  have 2: "before_request example_urlparse seasurf_with_app ?bad fresh_world
      = (Abort 403, fresh_world\<lparr>logged := logged fresh_world @
          [''Forbidden (CSRF token missing or incorrect.): '' @ path ?bad]\<rparr>)"
    by blast
  have 3: "path ?bad = ''/some_view''" "logged fresh_world = []"
    by (simp_all add: example_defs)
  from 1 2 3 show ?thesis by blast
qed

text \<open>
  The statement as the specification words it, with the token bound to the session as the
  canonical value, fails: the session holds \<^verbatim>\<open>abc123\<close>, the form supplies \<^verbatim>\<open>abc123\<close>,
  the request has no cookie, and the request does not pass.
\<close>

theorem session_token_not_compared:
  "session_items (session bound_world) ''_csrf_token'' = Some ''abc123'' \<and>
   request_method (bare_post\<lparr>form := token_abc123\<rparr>) = ''POST'' \<and>
   form (bare_post\<lparr>form := token_abc123\<rparr>) ''_csrf_token'' = Some ''abc123'' \<and>
   fst (before_request example_urlparse example_seasurf
          (bare_post\<lparr>form := token_abc123\<rparr>) bound_world) \<noteq> Return_None \<and>
   fst (before_request example_urlparse seasurf_with_app
          (bare_post\<lparr>form := token_abc123\<rparr>) bound_world) = Abort 403"
  by (simp add: example_defs hook_defs constant_time_compare_eq)

subsection \<open>The header as the second channel\<close>

text \<open>
  For a POST without the form field, the supplied token is what \<^verbatim>\<open>request.headers\<close>
  holds under the key the module passes, \<^verbatim>\<open>HTTP_X_CSRFTOKEN\<close>.
\<close>

lemma supplied_token_without_form:
  assumes "request_method r = ''POST''" and "form r ''_csrf_token'' = None"
  shows "request_csrf_token r = dict_get (headers r) ''HTTP_X_CSRFTOKEN'' ''''"
  using assms by (simp add: request_csrf_token_def dict_get_def)

text \<open>
  C5. The specification wants a POST without a form token to be judged by the token of
  its dedicated header, and to pass when that token is the canonical one. The header the
  class documents is \<^verbatim>\<open>X-CSRFToken\<close>. What the code does on a POST that carries
  \<^verbatim>\<open>X-CSRFToken: abc123\<close>, the cookie \<^verbatim>\<open>abc123\<close> and no form field, in a session that holds
  \<^verbatim>\<open>abc123\<close>: the lookup under \<^verbatim>\<open>HTTP_X_CSRFTOKEN\<close> finds nothing, the supplied token is
  empty, and the request is refused.
\<close>

theorem documented_header_not_read:
  "request_method (bare_post\<lparr>headers := header_x_csrftoken, cookies := token_abc123\<rparr>) = ''POST'' \<and>
   form (bare_post\<lparr>headers := header_x_csrftoken, cookies := token_abc123\<rparr>) ''_csrf_token''
     = None \<and>
   headers (bare_post\<lparr>headers := header_x_csrftoken, cookies := token_abc123\<rparr>) ''X-CSRFToken''
     = Some ''abc123'' \<and>
   cookies (bare_post\<lparr>headers := header_x_csrftoken, cookies := token_abc123\<rparr>) ''_csrf_token''
     = Some ''abc123'' \<and>
   session_items (session bound_world) ''_csrf_token'' = Some ''abc123'' \<and>
   request_csrf_token (bare_post\<lparr>headers := header_x_csrftoken, cookies := token_abc123\<rparr>)
     = '''' \<and>
   before_request example_urlparse example_seasurf
     (bare_post\<lparr>headers := header_x_csrftoken, cookies := token_abc123\<rparr>) bound_world
     = (Raise AttributeError, bound_world) \<and>
   fst (before_request example_urlparse seasurf_with_app
     (bare_post\<lparr>headers := header_x_csrftoken, cookies := token_abc123\<rparr>) bound_world)
     = Abort 403"
  by (simp add: example_defs hook_defs constant_time_compare_eq)

subsection \<open>The cookie after a request\<close>

text \<open>
  \<^verbatim>\<open>_after_request\<close> asks \<^verbatim>\<open>hasattr(session, '_csrf_token')\<close>, while \<^verbatim>\<open>_set_token\<close> binds
  the token as an item, \<^verbatim>\<open>session['_csrf_token']\<close>. An item is no attribute, and
  \<^verbatim>\<open>_set_token\<close> adds no attribute, so the response comes back as it went in.
\<close>

lemma after_request_without_attribute:
  "\<not> hasattr (session w) ''_csrf_token'' \<Longrightarrow> after_request self resp w = Inr resp"
  by (simp add: after_request_def)

lemma set_token_keeps_attrs:
  "session_attrs (session (snd (set_token h self w))) = session_attrs (session w)"
  by (simp add: set_token_def generate_token_def randrange_def session_setitem_def Let_def
      split: prod.split)

text \<open>
  C2. The specification wants a response with the cookie and the \<^verbatim>\<open>Vary\<close> mark whenever the
  session holds a token. What the code does with the session that holds \<^verbatim>\<open>abc123\<close>: the
  response is returned without a cookie and without the mark.
\<close>

theorem after_request_ignores_bound_token:
  "session_getitem (session bound_world) ''_csrf_token'' = Inr ''abc123'' \<and>
   session_contains (session bound_world) ''_csrf_token'' \<and>
   after_request example_seasurf empty_response bound_world = Inr empty_response \<and>
   set_cookies empty_response = [] \<and> vary empty_response = {}"
  by (simp add: example_defs after_request_def hasattr_def session_getitem_def
      session_contains_def)

subsection \<open>Exempt views\<close>

text \<open>
  The decorator stores the view function; the hook looks for the name of the endpoint, a
  string. A list of functions never contains it.
\<close>

lemma py_in_functions:
  "\<forall>v \<in> set views. \<exists>f. v = PyFunc f \<Longrightarrow> \<not> py_in (endpoint_value r) views"
  by (induction views) (auto simp: endpoint_value_def split: option.splits)

text \<open>
  C3. The specification wants every unsafe request to an exempted view to pass, also without a
  supplied token. What the code does for the view \<^verbatim>\<open>some_view\<close>, decorated with
  \<^verbatim>\<open>exempt\<close>, on a POST to its endpoint that carries the cookie and no supplied token: the
  exemption is not found and the token check refuses the request (by the exception of a
  missing \<^verbatim>\<open>self.app\<close>, and by 403 once that attribute is there).
\<close>

theorem exempt_view_not_recognised:
  "exempt_views seasurf_exempting = [PyFunc ''some_view''] \<and>
   endpoint (bare_post\<lparr>cookies := token_abc123\<rparr>) = Some ''some_view'' \<and>
   request_csrf_token (bare_post\<lparr>cookies := token_abc123\<rparr>) = '''' \<and>
   before_request example_urlparse seasurf_exempting
     (bare_post\<lparr>cookies := token_abc123\<rparr>) fresh_world = (Raise AttributeError, fresh_world) \<and>
   fst (before_request example_urlparse (seasurf_exempting\<lparr>app := Some example_app\<rparr>)
     (bare_post\<lparr>cookies := token_abc123\<rparr>) fresh_world) = Abort 403"
  by (simp add: example_defs hook_defs constant_time_compare_eq)

subsection \<open>The referer check\<close>

text \<open>
  C4. The specification wants a secure request without a referer, or with a referer of another
  origin, to end in 403 with the reason logged. What the code does on the instance that
  \<^verbatim>\<open>SeaSurf(app)\<close> builds: \<^verbatim>\<open>self.app\<close> was never assigned, so both requests end in
  \<^verbatim>\<open>AttributeError\<close>, before \<^verbatim>\<open>abort(403)\<close>, and nothing is logged.
\<close>

theorem referer_denial_raises:
  "app example_seasurf = None \<and>
   is_secure secure_post \<and> headers secure_post ''HTTP_REFERER'' = None \<and>
   before_request example_urlparse example_seasurf secure_post fresh_world
     = (Raise AttributeError, fresh_world) \<and>
   headers (secure_post\<lparr>headers := referer_evil\<rparr>) ''HTTP_REFERER''
     = Some ''https://evil.example/'' \<and>
   \<not> same_origin example_urlparse ''https://evil.example/'' (url_root secure_post) \<and>
   before_request example_urlparse example_seasurf
     (secure_post\<lparr>headers := referer_evil\<rparr>) fresh_world
     = (Raise AttributeError, fresh_world)"
  by (simp add: example_defs hook_defs)

text \<open>
  On an instance whose \<^verbatim>\<open>app\<close> attribute has been assigned, the three cases of the check
  are as the code writes them, for the value that \<^verbatim>\<open>request.headers\<close> holds under the key
  \<^verbatim>\<open>HTTP_REFERER\<close>: 403 with the logged reason when there is none and when its origin is
  another one, and the token check when its origin is the own one.
\<close>

lemma referer_check_with_app:
  assumes "\<not> csrf_disable self" and "request_method r \<notin> set safe_methods"
    and "\<not> py_in (endpoint_value r) (exempt_views self)" and "is_secure r"
    and "app self = Some a"
  shows "(headers r ''HTTP_REFERER'' = None \<longrightarrow>
            before_request urlparse self r w =
              (Abort 403, w\<lparr>logged := logged w @
                 [''Forbidden (Referer checking failed: no referer.): '' @ path r]\<rparr>)) \<and>
         (headers r ''HTTP_REFERER'' = Some referer \<and>
          \<not> same_origin urlparse referer (url_root r) \<longrightarrow>
            before_request urlparse self r w =
              (Abort 403, w\<lparr>logged := logged w @
                 [''Forbidden (Referer checking failed: '' @ referer @ '' does not match '' @
                    url_root r @ ''.): '' @ path r]\<rparr>)) \<and>
         (headers r ''HTTP_REFERER'' = Some referer \<and>
          same_origin urlparse referer (url_root r) \<longrightarrow>
            before_request urlparse self r w = check_token self r w)"
  using assms
  by (simp add: before_request_def warn_and_abort_def forbidden_message_def
      REASON_NO_REFERER_def REASON_BAD_REFERER_def)

subsection \<open>Two empty tokens\<close>

text \<open>
  C6. The specification wants a request that reaches the comparison with an empty supplied token
  and an empty canonical token to be refused. What the code does on a POST without cookie,
  form field and header: the two empty strings compare equal and the request passes.
\<close>

theorem empty_tokens_allowed:
  "cookie_csrf_token bare_post = '''' \<and> request_csrf_token bare_post = '''' \<and>
   \<not> csrf_disable example_seasurf \<and>
   \<not> py_in (endpoint_value bare_post) (exempt_views example_seasurf) \<and>
   before_request example_urlparse example_seasurf bare_post fresh_world
     = (Return_None, fresh_world) \<and>
   before_request example_urlparse seasurf_with_app bare_post fresh_world
     = (Return_None, fresh_world)"
  by (simp add: example_defs hook_defs constant_time_compare_eq)

end
